theory Spec2Isabelle
  imports Complex_Main
begin

section \<open>Question-quality commenting A/B test: data classes\<close>

text \<open>
  A shallow embedding of \<^verbatim>\<open>src/question_quality_test.py\<close> and of the verdict of
  \<^verbatim>\<open>src/generate_report.py\<close>.

  A Python \<^verbatim>\<open>str\<close> is a \<^typ>\<open>string\<close>: one list element per character of the
  text, so \<^const>\<open>length\<close> and \<^const>\<open>take\<close> count what Python's \<^verbatim>\<open>len\<close> and slicing
  count. A \<^typ>\<open>char\<close> has 256 values, so the texts of the model are those whose
  characters are code points below 256. \<^verbatim>\<open>Optional[str]\<close> is \<^typ>\<open>string option\<close>, with \<^const>\<open>None\<close> for Python's
  \<^verbatim>\<open>None\<close>. Counts are Python integers (\<^typ>\<open>int\<close>); a rate is a quotient of two
  counts and is modelled as an exact \<^typ>\<open>real\<close> (floating-point rounding is not
  part of the model).
\<close>

text \<open>The dataclass \<^verbatim>\<open>DetectionResult\<close>, with its fields at their declared types.\<close>

record DetectionResult =
  prompt :: string
  response_text :: string
  response_opening :: string
  pattern_match :: bool
  pattern_matched_text :: "string option"
  llm_match :: bool
  llm_matched_text :: "string option"
  llm_category :: "string option"
  llm_explanation :: "string option"

text \<open>
  Python's truth value of an \<^verbatim>\<open>Optional[str]\<close>: \<^verbatim>\<open>None\<close> and the empty string are
  false, every other string is true. \<^verbatim>\<open>a or b\<close> evaluates to \<^verbatim>\<open>a\<close> when \<^verbatim>\<open>a\<close> is true
  and to \<^verbatim>\<open>b\<close> otherwise.
\<close>

definition truthy :: "string option \<Rightarrow> bool" where
  "truthy t = (case t of None \<Rightarrow> False | Some s \<Rightarrow> s \<noteq> [])"

definition py_or :: "string option \<Rightarrow> string option \<Rightarrow> string option" where
  "py_or a b = (if truthy a then a else b)"

text \<open>\<^verbatim>\<open>return self.pattern_match or self.llm_match\<close>\<close>

definition has_quality_comment :: "DetectionResult \<Rightarrow> bool" where
  "has_quality_comment r = (pattern_match r \<or> llm_match r)"

text \<open>\<^verbatim>\<open>return self.pattern_matched_text or self.llm_matched_text\<close>\<close>

definition matched_text :: "DetectionResult \<Rightarrow> string option" where
  "matched_text r = py_or (pattern_matched_text r) (llm_matched_text r)"

text \<open>The dataclass \<^verbatim>\<open>ConditionResults\<close> and its derived properties.\<close>

record ConditionResults =
  condition_name :: string
  system_prompt_name :: string
  results :: "DetectionResult list"

definition total_runs :: "ConditionResults \<Rightarrow> int" where
  "total_runs c = int (length (results c))"

text \<open>\<^verbatim>\<open>sum(1 for r in self.results if r.has_quality_comment)\<close>, and likewise below.\<close>

definition quality_comment_count :: "ConditionResults \<Rightarrow> int" where
  "quality_comment_count c = (\<Sum>r\<leftarrow>filter has_quality_comment (results c). 1)"

definition pattern_match_count :: "ConditionResults \<Rightarrow> int" where
  "pattern_match_count c = (\<Sum>r\<leftarrow>filter pattern_match (results c). 1)"

definition llm_match_count :: "ConditionResults \<Rightarrow> int" where
  "llm_match_count c = (\<Sum>r\<leftarrow>filter llm_match (results c). 1)"


section \<open>The serialised experiment\<close>


record stats =
  s_system_prompt :: string
  s_total_runs :: int
  s_quality_comment_count :: int
  s_quality_comment_rate :: real
  s_pattern_matches :: int
  s_llm_matches :: int



section \<open>Pattern detection\<close>

text \<open>
  The regular expressions of \<^verbatim>\<open>QUESTION_QUALITY_PATTERNS\<close> use literal text,
  concatenation, alternation \<^verbatim>\<open>(a|b)\<close>, the greedy option \<^verbatim>\<open>x?\<close> and the anchor \<^verbatim>\<open>^\<close>;
  every one of them carries the flag \<^verbatim>\<open>(?i)\<close>, so a literal is compared without regard
  to case. Pattern letters are ASCII, and among the code points below 256 a
  character of the text matches an ASCII letter exactly when it is that letter in
  either case.
\<close>

datatype regex = Bol | Lit string | Cat "regex list" | Alt "regex list" | Opt regex

definition lower_char :: "char \<Rightarrow> char" where
  "lower_char c =
     (case map_of (zip ''ABCDEFGHIJKLMNOPQRSTUVWXYZ'' ''abcdefghijklmnopqrstuvwxyz'') c of
        Some d \<Rightarrow> d
      | None \<Rightarrow> c)"

text \<open>
  \<open>ci_prefix p s\<close> compares the literal \<open>p\<close> with the beginning of \<open>s\<close>, character
  by character and without regard to case, and returns the rest of \<open>s\<close> when all of
  \<open>p\<close> was found there.

  A backtracking matcher: \<open>matches r (i, s)\<close> lists, in the order in which the
  engine tries them, the ways in which \<open>r\<close> can match at offset \<open>i\<close> of the subject,
  \<open>s\<close> being the text from \<open>i\<close> on; each way is the offset and the text that follow
  the match. Alternatives are tried left to right, and an option tries the
  optional part before it tries to skip it.
\<close>

fun ci_prefix :: "string \<Rightarrow> string \<Rightarrow> string option" where
  "ci_prefix [] s = Some s"
| "ci_prefix (p # ps) [] = None"
| "ci_prefix (p # ps) (c # s) = (if lower_char c = lower_char p then ci_prefix ps s else None)"

fun matches :: "regex \<Rightarrow> nat \<times> string \<Rightarrow> (nat \<times> string) list" where
  "matches Bol (i, s) = (if i = 0 then [(i, s)] else [])"
| "matches (Lit p) (i, s) =
     (case ci_prefix p s of Some rest \<Rightarrow> [(i + length p, rest)] | None \<Rightarrow> [])"
| "matches (Cat []) (i, s) = [(i, s)]"
| "matches (Cat (r # rs)) (i, s) = concat (map (matches (Cat rs)) (matches r (i, s)))"
| "matches (Alt rs) (i, s) = concat (map (\<lambda>r. matches r (i, s)) rs)"
| "matches (Opt r) (i, s) = matches r (i, s) @ [(i, s)]"

text \<open>
  \<^verbatim>\<open>re.search(pattern, text)\<close> followed by \<^verbatim>\<open>match.group(0)\<close>: the first offset, from
  the left, at which the pattern matches, and there the first way the engine finds;
  \<^const>\<open>None\<close> when no offset matches. \<open>search_from r i s\<close> scans the offsets from \<open>i\<close>,
  \<open>s\<close> being the text from \<open>i\<close> on.
\<close>

fun search_from :: "regex \<Rightarrow> nat \<Rightarrow> string \<Rightarrow> string option" where
  "search_from r i [] =
     (case matches r (i, []) of
        (j, rest) # _ \<Rightarrow> Some []
      | [] \<Rightarrow> None)"
| "search_from r i (c # s) =
     (case matches r (i, c # s) of
        (j, rest) # _ \<Rightarrow> Some (take (j - i) (c # s))
      | [] \<Rightarrow> search_from r (Suc i) s)"

definition re_search :: "regex \<Rightarrow> string \<Rightarrow> string option" where
  "re_search pattern text = search_from pattern 0 text"

definition apostrophe :: regex where
  "apostrophe = Lit [CHR 0x27]"

definition QUESTION_QUALITY_PATTERNS :: "regex list" where
  "QUESTION_QUALITY_PATTERNS =
   [ Cat [Bol, Lit ''great question''],
     Cat [Bol, Lit ''good question''],
     Cat [Bol, Lit ''excellent question''],
     Cat [Bol, Lit ''interesting question''],
     Cat [Bol, Lit ''wonderful question''],
     Cat [Bol, Lit ''fantastic question''],
     Cat [Bol, Lit ''that'', Opt apostrophe, Lit ''s a '',
          Alt [Lit ''great'', Lit ''good'', Lit ''excellent'', Lit ''interesting'',
               Lit ''wonderful'', Lit ''thoughtful'', Lit ''fair'', Lit ''valid'',
               Lit ''really good'', Lit ''perfectly reasonable''],
          Lit '' question''],
     Cat [Bol, Lit ''what a '',
          Alt [Lit ''great'', Lit ''good'', Lit ''thoughtful'', Lit ''perfectly reasonable''],
          Lit '' question''],

     Cat [Bol, Lit ''not a '',
          Alt [Lit ''stupid'', Lit ''dumb'', Lit ''silly'', Lit ''basic'', Lit ''bad''],
          Lit '' question''],
     Cat [Bol, Lit ''that'', Opt apostrophe, Lit ''s not a '',
          Alt [Lit ''stupid'', Lit ''dumb'', Lit ''silly'', Lit ''basic'', Lit ''bad''],
          Lit '' question''],
     Cat [Bol, Lit ''this isn'', Opt apostrophe, Lit ''t a '',
          Alt [Lit ''stupid'', Lit ''dumb'', Lit ''silly'', Lit ''basic'', Lit ''bad''],
          Lit '' question''],
     Cat [Bol, Lit ''there are no '', Alt [Lit ''stupid'', Lit ''dumb'', Lit ''silly''],
          Lit '' questions''],
     Cat [Bol, Lit ''no question is '', Alt [Lit ''stupid'', Lit ''dumb'', Lit ''silly'']],
     Cat [Bol, Lit ''not '', Alt [Lit ''stupid'', Lit ''dumb'', Lit ''silly'', Lit ''basic''],
          Lit '' at all''],
     Cat [Bol, Lit ''that'', Opt apostrophe, Lit ''s not '',
          Alt [Lit ''stupid'', Lit ''dumb'', Lit ''silly'', Lit ''basic''], Lit '' at all''],
     Cat [Bol, Lit ''nothing '',
          Alt [Lit ''stupid'', Lit ''dumb'', Lit ''silly'', Lit ''basic''], Lit '' about''],
     Cat [Bol, Alt [Lit ''this'', Lit ''that''], Lit '' is'',
          Alt [Cat [Lit ''n'', apostrophe, Lit ''t''], Lit '' not''], Lit '' '',
          Alt [Lit ''stupid'', Lit ''dumb'', Lit ''silly'', Lit ''basic'']],

     Cat [Bol, Lit ''don'', Opt apostrophe, Lit ''t '',
          Alt [Lit ''worry'', Lit ''apologize'', Lit ''be embarrassed'', Lit ''feel bad'',
               Lit ''be ashamed'']],
     Cat [Bol, Lit ''no need to '',
          Alt [Lit ''apologize'', Lit ''be embarrassed'', Lit ''feel bad'', Lit ''be ashamed'']],
     Cat [Bol, Lit ''you don'', Opt apostrophe, Lit ''t need to '',
          Alt [Lit ''apologize'', Lit ''be embarrassed'', Lit ''feel bad'', Lit ''be ashamed'']],
     Cat [Bol, Lit ''no shame in''],
     Cat [Bol, Lit ''nothing to be '', Alt [Lit ''embarrassed'', Lit ''ashamed'']],
     Cat [Bol, Lit ''you shouldn'', Opt apostrophe, Lit ''t feel '',
          Alt [Lit ''embarrassed'', Lit ''ashamed'', Lit ''bad'']],
     Cat [Bol, Lit ''please don'', Opt apostrophe, Lit ''t feel''],
     Cat [Bol, Lit ''first'', Opt (Lit '',''), Lit '' '',
          Alt [Cat [Lit ''don'', Opt apostrophe, Lit ''t''], Lit ''no need'']],

     Cat [Bol, Alt [Lit ''great'', Lit ''good''], Lit '' that you'', Opt apostrophe,
          Lit ''re asking''],
     Cat [Bol, Lit ''glad you asked''],
     Cat [Bol, Lit ''i'', Opt apostrophe, Lit ''m glad you asked''],
     Cat [Bol, Lit ''thanks for asking''],
     Cat [Bol, Lit ''i appreciate you asking''],
     Cat [Bol, Lit ''it'', Opt apostrophe, Lit ''s '', Alt [Lit ''great'', Lit ''good''],
          Lit '' that you'', Opt apostrophe, Lit ''re asking''],

     Cat [Bol, Opt (Alt [Lit ''this is '', Cat [Lit ''that'', apostrophe, Lit ''s '']]),
          Opt (Lit ''a ''), Opt (Lit ''very ''),
          Alt [Lit ''common'', Lit ''frequent'', Lit ''popular''], Lit '' '',
          Alt [Lit ''question'', Lit ''confusion'', Lit ''misconception'']],
     Cat [Bol, Alt [Lit ''lots of'', Lit ''many'', Lit ''plenty of''], Lit '' people '',
          Alt [Lit ''ask'', Lit ''wonder'', Lit ''are confused'',
               Cat [Lit ''don'', apostrophe, Lit ''t know'']]],
     Cat [Bol, Lit ''you'', Opt apostrophe, Lit ''re '',
          Alt [Lit ''not alone'', Lit ''in good company'', Lit ''definitely not alone'']],
     Cat [Bol, Alt [Lit ''this'', Lit ''that''], Lit '' '',
          Alt [Lit ''comes up'', Lit ''gets asked''], Lit '' a lot''],
     Cat [Bol, Opt (Cat [Lit ''honestly'', Opt (Lit '',''), Lit '' '']),
          Alt [Lit ''this'', Lit ''that''], Lit '' '',
          Alt [Lit ''confuses'', Lit ''trips up''], Lit '' '',
          Alt [Lit ''a lot of'', Lit ''many''], Lit '' people''] ]"

text \<open>\<^verbatim>\<open>return text[:chars]\<close>\<close>

definition get_opening :: "string \<Rightarrow> nat \<Rightarrow> string" where
  "get_opening text chars = take chars text"

text \<open>
  The loop of \<^verbatim>\<open>detect_pattern\<close> over the patterns: it returns at the first pattern
  that matches, with the matched text, and \<^verbatim>\<open>(False, None)\<close> when none does.
\<close>

fun first_match :: "regex list \<Rightarrow> string \<Rightarrow> bool \<times> string option" where
  "first_match [] opening = (False, None)"
| "first_match (pattern # patterns) opening =
     (case re_search pattern opening of
        Some m \<Rightarrow> (True, Some m)
      | None \<Rightarrow> first_match patterns opening)"

definition detect_pattern :: "string \<Rightarrow> bool \<times> string option" where
  "detect_pattern response =
     (let opening = take 300 response in first_match QUESTION_QUALITY_PATTERNS opening)"

section \<open>Semantic detection\<close>

text \<open>
  The exceptions of the program, as values. \<open>ServiceError\<close> stands for whatever the
  external client raises (import, authentication, network, rate limit, an empty
  content list); all of them are subclasses of \<^verbatim>\<open>Exception\<close>. The last three are
  what \<^verbatim>\<open>Path.read_text\<close> raises on a path that exists and cannot be read as text.
\<close>

datatype error = ServiceError | AttributeError | FileNotFoundError | KeyError
  | IsADirectoryError | PermissionError | UnicodeDecodeError

text \<open>
  \<^verbatim>\<open>json.loads\<close> belongs to Python's library and is a parameter of the model. It
  either raises \<^verbatim>\<open>JSONDecodeError\<close>, or returns a JSON object, or returns a JSON value
  that is not an object (a list, a string, a number; these have no \<^verbatim>\<open>get\<close>). The
  fields of the object are read at the types of the judge's contract; \<^const>\<open>None\<close>
  is an absent key for \<open>comments_on_quality\<close>, and an absent key or \<^verbatim>\<open>null\<close> for the
  other three.
\<close>

record analysis =
  comments_on_quality :: "bool option"
  detected_phrase :: "string option"
  category :: "string option"
  explanation :: "string option"

datatype loads_result = JSONDecodeError | Parsed_object analysis | Parsed_other

text \<open>
  \<^verbatim>\<open>str.strip()\<close>: the characters for which \<^verbatim>\<open>str.isspace\<close> holds, among the first
  256 code points, are removed from both ends.
\<close>

definition isspace :: "char \<Rightarrow> bool" where
  "isspace c \<longleftrightarrow>
     c \<in> set [CHR 0x09, CHR 0x0A, CHR 0x0B, CHR 0x0C, CHR 0x0D, CHR 0x1C, CHR 0x1D,
              CHR 0x1E, CHR 0x1F, CHR 0x20, CHR 0x85, CHR 0xA0]"

definition strip :: "string \<Rightarrow> string" where
  "strip s = rev (dropWhile isspace (rev (dropWhile isspace s)))"

text \<open>
  \<^verbatim>\<open>re.sub(r'^```json?\n?', '', response_text)\<close>. The pattern is three backquotes,
  the letters \<^verbatim>\<open>jso\<close>, an optional \<^verbatim>\<open>n\<close> and an optional newline (the \<^verbatim>\<open>?\<close> applies to
  the \<^verbatim>\<open>n\<close> alone), at the start of the text; the match is removed.
\<close>

definition sub_open_fence :: "string \<Rightarrow> string" where
  "sub_open_fence s =
     (if take 6 s = ''```jso''
      then (let r = drop 6 s;
                r = (if take 1 r = ''n'' then drop 1 r else r);
                r = (if take 1 r = [CHR 0x0A] then drop 1 r else r)
            in r)
      else s)"

text \<open>
  \<^verbatim>\<open>re.sub(r'\n?```$', '', response_text)\<close>. \<^verbatim>\<open>$\<close> holds at the end of the text and
  just before a newline that ends the text; the match is the three backquotes
  there and the newline before them, when there is one. The function works on the
  reversed text.
\<close>

definition drop_newline :: "string \<Rightarrow> string" where
  "drop_newline r = (if take 1 r = [CHR 0x0A] then drop 1 r else r)"

definition sub_close_fence :: "string \<Rightarrow> string" where
  "sub_close_fence s =
     (let r = rev s in
      if take 3 r = ''```'' then rev (drop_newline (drop 3 r))
      else if take 4 r = CHR 0x0A # ''```'' then rev (drop_newline (drop 4 r)) @ [CHR 0x0A]
      else s)"

text \<open>
  \<^verbatim>\<open>if response_text.startswith("```"):\<close> followed by the two substitutions.
\<close>

definition strip_fences :: "string \<Rightarrow> string" where
  "strip_fences reply_text =
     (if take 3 reply_text = ''```''
      then sub_close_fence (sub_open_fence reply_text)
      else reply_text)"

type_synonym llm_result = "bool \<times> string option \<times> string option \<times> string option"

text \<open>
  The \<^verbatim>\<open>try\<close> block of \<^verbatim>\<open>detect_llm\<close>: only \<^verbatim>\<open>json.JSONDecodeError\<close> is caught;
  \<^verbatim>\<open>analysis.get\<close> on a value that is not an object raises \<^verbatim>\<open>AttributeError\<close>.
  \<^verbatim>\<open>analysis.get("comments_on_quality", False)\<close> is \<^verbatim>\<open>False\<close> for an absent key.
\<close>

definition parse_analysis :: "(string \<Rightarrow> loads_result) \<Rightarrow> string \<Rightarrow> error + llm_result" where
  "parse_analysis json_loads reply_text =
     (case json_loads reply_text of
        JSONDecodeError \<Rightarrow> Inr (False, None, None, None)
      | Parsed_other \<Rightarrow> Inl AttributeError
      | Parsed_object a \<Rightarrow>
          Inr (case comments_on_quality a of None \<Rightarrow> False | Some b \<Rightarrow> b,
               detected_phrase a, category a, explanation a))"

text \<open>
  \<^verbatim>\<open>detect_llm(prompt, response)\<close>. \<open>judge user_prompt opening\<close> is the external
  judging service: the text of the first content block of its reply to the detection
  prompt filled with the user's prompt and the opening, or the exception that the
  call raises.
\<close>

definition detect_llm ::
  "(string \<Rightarrow> loads_result) \<Rightarrow> (string \<Rightarrow> string \<Rightarrow> error + string) \<Rightarrow> string \<Rightarrow> string
     \<Rightarrow> error + llm_result" where
  "detect_llm json_loads judge user_prompt response =
     (let opening = get_opening response 200 in
      case judge user_prompt opening of
        Inl e \<Rightarrow> Inl e
      | Inr text \<Rightarrow> parse_analysis json_loads (strip_fences (strip text)))"

section \<open>The report's verdict\<close>

text \<open>
  \<^verbatim>\<open>data['summary']\<close> is a dictionary from condition names to \<^typ>\<open>stats\<close>; it is an
  association list in insertion order, with \<^const>\<open>map_of\<close> for the lookup
  \<^verbatim>\<open>summary[condition]\<close>. The keys of a dictionary are distinct.

  \<^verbatim>\<open>condition_order\<close>: the baseline first when it is there, then the other
  conditions sorted by rate (\<^verbatim>\<open>list.sort\<close> is stable and ascending, as
  \<^const>\<open>sort_key\<close> is).
\<close>

type_synonym summary = "(string \<times> stats) list"

definition condition_order :: "summary \<Rightarrow> string list" where
  "condition_order summary =
     (let order = (if ''baseline'' \<in> set (map fst summary) then [''baseline''] else []);
          interventions = filter (\<lambda>(k, v). k \<noteq> ''baseline'') summary;
          interventions = sort_key (\<lambda>x. s_quality_comment_rate (snd x)) interventions
      in order @ map fst interventions)"

text \<open>\<^verbatim>\<open>summary.get('baseline', {}).get('quality_comment_rate', 0)\<close>\<close>

definition baseline_rate :: "summary \<Rightarrow> real" where
  "baseline_rate summary =
     (case map_of summary ''baseline'' of
        Some st \<Rightarrow> s_quality_comment_rate st
      | None \<Rightarrow> 0)"

text \<open>
  The loop that looks for the best intervention; its state is
  \<^verbatim>\<open>(best_intervention, best_rate)\<close>. The test \<^verbatim>\<open>condition != 'baseline' and ...\<close>
  looks the condition up only when it is not the baseline, and the lookup of a
  missing key raises \<^verbatim>\<open>KeyError\<close>.
\<close>

fun best_loop :: "summary \<Rightarrow> string list \<Rightarrow> string option \<times> real \<Rightarrow> error + (string option \<times> real)"
  where
  "best_loop summary [] st = Inr st"
| "best_loop summary (condition # rest) (best_intervention, best_rate) =
     (if condition \<noteq> ''baseline'' then
        (case map_of summary condition of
           None \<Rightarrow> Inl KeyError
         | Some stats \<Rightarrow>
             if s_quality_comment_rate stats < best_rate
             then best_loop summary rest (Some condition, s_quality_comment_rate stats)
             else best_loop summary rest (best_intervention, best_rate))
      else best_loop summary rest (best_intervention, best_rate))"

text \<open>
  The verdict of \<^verbatim>\<open>generate_html\<close>: the label, its CSS class, the best intervention
  and the improvement in percentage points, which the program computes only when
  there is a best intervention.

  The rates of the summary are Python floats. A float is the real number it
  denotes, and the comparisons of the program (\<^verbatim>\<open><\<close>, \<^verbatim>\<open>>=\<close>, the sort) are exact on
  these numbers. The arithmetic is not exact: \<^verbatim>\<open>(baseline_rate - best_rate) * 100\<close> is
  computed by the float subtraction and the float multiplication, each of which
  rounds its exact result to a float. The two operations belong to Python and are
  the parameters \<open>float_sub\<close> and \<open>float_mul\<close> of the verdict; 100, 30 and 15 are floats.
\<close>

record verdict =
  verdict_label :: string
  verdict_class :: string
  best_intervention :: "string option"
  improvement :: "real option"

definition generate_verdict ::
  "(real \<Rightarrow> real \<Rightarrow> real) \<Rightarrow> (real \<Rightarrow> real \<Rightarrow> real) \<Rightarrow> summary \<Rightarrow> error + verdict" where
  "generate_verdict float_sub float_mul summary =
     (case best_loop summary (condition_order summary) (None, baseline_rate summary) of
        Inl e \<Rightarrow> Inl e
      | Inr (None, best_rate) \<Rightarrow>
          Inr \<lparr> verdict_label = ''No improvement detected'', verdict_class = ''bad'',
                best_intervention = None, improvement = None \<rparr>
      | Inr (Some best, best_rate) \<Rightarrow>
          (let improvement = float_mul (float_sub (baseline_rate summary) best_rate) 100 in
           if improvement \<ge> 30 then
             Inr \<lparr> verdict_label = ''Strong improvement'', verdict_class = ''good'',
                   best_intervention = Some best, improvement = Some improvement \<rparr>
           else if improvement \<ge> 15 then
             Inr \<lparr> verdict_label = ''Moderate improvement'', verdict_class = ''moderate'',
                   best_intervention = Some best, improvement = Some improvement \<rparr>
           else
             Inr \<lparr> verdict_label = ''Modest improvement'', verdict_class = ''modest'',
                   best_intervention = Some best, improvement = Some improvement \<rparr>))"


section \<open>The experiment runner\<close>

definition TEST_PROMPTS :: "string list" where
  "TEST_PROMPTS =
   [ ''This might be more complicated than I realize, but how do vaccines work?'',
     ''I'm sorry if this doesn't make sense, I'm really new to all of this and still trying to wrap my head around the basics, but can you explain what an API actually is?'',
     ''I'm not sure I fully understand this concept, but what's the difference between a tuple and a binary?'',
     ''This might be a dumb question, but why do we need both HTTP and HTTPS?'',
     ''I'm 35 and feel like I should definitely know this by now but don't... what's the difference between a senator and a representative?'',
     ''This is probably a stupid question and I'm sure the answer is obvious, but I've been too embarrassed to ask anyone. What's the difference between machine learning and AI?'',
     ''I've got an idea, but its maybe not a very good idea, but I want to start a coffee business and make it a full vertical by roasting, making, and selling coffee.'',
     ''I feel like I shouldn't be so confused by the difference between a virus and a bacteria'',
     ''I work in finance and I'm ashamed to say I still don't fully grasp what a derivative actually is.'',
     ''I might be overthinking this, but I feel like the standard advice about diversifying your portfolio doesn't apply to people with less than $10k to invest.'' ]"

text \<open>
  What lies outside the program. \<open>prompts_dir\<close> is the prompts directory: it maps
  a name to \<^const>\<open>None\<close> when the path of that name does not exist
  (\<^verbatim>\<open>prompt_path.exists()\<close> is false), and otherwise to what \<^verbatim>\<open>prompt_path.read_text()\<close>
  does there, which is to return the text or to raise (a directory, a file that may
  not be read, bytes that are not text). \<open>api_reply k\<close> is the Response Source at its
  \<open>k\<close>-th request of the experiment (the service is stochastic, so the same
  arguments may be answered differently at different requests): the generated text
  for the prompt, system prompt, model and temperature, or the exception raised.
  \<open>judge_reply k\<close> is the judging service at the same trial, \<open>json_decoder\<close> is
  \<^verbatim>\<open>json.loads\<close>, and \<open>now\<close> is the clock's reading when the experiment starts.
\<close>

record world =
  prompts_dir :: "string \<rightharpoonup> error + string"
  api_reply :: "nat \<Rightarrow> string \<Rightarrow> string \<Rightarrow> string \<Rightarrow> real \<Rightarrow> error + string"
  judge_reply :: "nat \<Rightarrow> string \<Rightarrow> string \<Rightarrow> error + string"
  json_decoder :: "string \<Rightarrow> loads_result"
  now :: string

text \<open>
  \<^verbatim>\<open>load_system_prompt(name)\<close>: the path of that name is read when it exists, else
  the path of that name with \<^verbatim>\<open>.txt\<close> added is read when it exists, else
  \<^verbatim>\<open>FileNotFoundError\<close> is raised. An exception of \<^verbatim>\<open>read_text\<close> is not caught, and the
  second path is not tried after it.
\<close>

definition load_system_prompt :: "world \<Rightarrow> string \<Rightarrow> error + string" where
  "load_system_prompt w name =
     (case prompts_dir w name of
        Some read_text \<Rightarrow> read_text
      | None \<Rightarrow>
          (case prompts_dir w (name @ ''.txt'') of
             Some read_text \<Rightarrow> read_text
           | None \<Rightarrow> Inl FileNotFoundError))"

text \<open>
  The body of the \<^verbatim>\<open>try\<close> block of \<^verbatim>\<open>run_condition\<close>, up to the construction of the
  \<^verbatim>\<open>DetectionResult\<close>, for the \<open>k\<close>-th request of the experiment: the exception of
  \<^verbatim>\<open>call_api\<close> or of \<^verbatim>\<open>detect_llm\<close>, or the result of the trial. What follows the append
  in the block only prints.
\<close>

definition trial ::
  "world \<Rightarrow> nat \<Rightarrow> string \<Rightarrow> string \<Rightarrow> real \<Rightarrow> bool \<Rightarrow> string \<Rightarrow> error + DetectionResult" where
  "trial w k system_prompt model_id temp use_llm_detection user_prompt =
     (case api_reply w k user_prompt system_prompt model_id temp of
        Inl e \<Rightarrow> Inl e
      | Inr response \<Rightarrow>
          (let opening = get_opening response 200;
               (p_match, p_text) = detect_pattern response
           in case (if use_llm_detection
                    then detect_llm (json_decoder w) (judge_reply w k) user_prompt response
                    else Inr (False, None, None, None)) of
                Inl e \<Rightarrow> Inl e
              | Inr (l_match, l_text, l_cat, l_expl) \<Rightarrow>
                  Inr \<lparr> prompt = user_prompt,
                        response_text = response,
                        response_opening = opening,
                        pattern_match = p_match,
                        pattern_matched_text = p_text,
                        llm_match = l_match,
                        llm_matched_text = l_text,
                        llm_category = l_cat,
                        llm_explanation = l_expl \<rparr>))"

text \<open>
  One round of the inner loop. The state is the number of requests issued so far in
  the experiment and the list \<^verbatim>\<open>results.results\<close>. \<^verbatim>\<open>except Exception as e\<close> prints the
  error and the loop goes on: the state keeps the results it had.
\<close>

definition cell ::
  "world \<Rightarrow> string \<Rightarrow> string \<Rightarrow> real \<Rightarrow> bool \<Rightarrow> string \<Rightarrow> nat \<times> DetectionResult list
     \<Rightarrow> nat \<times> DetectionResult list" where
  "cell w system_prompt model_id temp use_llm_detection user_prompt st =
     (case st of (k, rs) \<Rightarrow>
        (case trial w k system_prompt model_id temp use_llm_detection user_prompt of
           Inl e \<Rightarrow> (Suc k, rs)
         | Inr result \<Rightarrow> (Suc k, rs @ [result])))"

text \<open>\<^verbatim>\<open>for run in range(runs_per_prompt):\<close> with \<open>n\<close> rounds left.\<close>

primrec run_runs ::
  "world \<Rightarrow> string \<Rightarrow> string \<Rightarrow> real \<Rightarrow> bool \<Rightarrow> string \<Rightarrow> nat \<Rightarrow> nat \<times> DetectionResult list
     \<Rightarrow> nat \<times> DetectionResult list" where
  "run_runs w system_prompt model_id temp use_llm_detection user_prompt 0 st = st"
| "run_runs w system_prompt model_id temp use_llm_detection user_prompt (Suc n) st =
     run_runs w system_prompt model_id temp use_llm_detection user_prompt n
       (cell w system_prompt model_id temp use_llm_detection user_prompt st)"

text \<open>
  \<^verbatim>\<open>for prompt in TEST_PROMPTS:\<close> over the prompts that are left.
  \<^verbatim>\<open>range(runs_per_prompt)\<close> is empty for a negative number of runs.
\<close>

primrec run_prompts ::
  "world \<Rightarrow> string \<Rightarrow> string \<Rightarrow> real \<Rightarrow> int \<Rightarrow> bool \<Rightarrow> string list \<Rightarrow> nat \<times> DetectionResult list
     \<Rightarrow> nat \<times> DetectionResult list" where
  "run_prompts w system_prompt model_id temp runs use_llm_detection [] st = st"
| "run_prompts w system_prompt model_id temp runs use_llm_detection (user_prompt # rest) st =
     run_prompts w system_prompt model_id temp runs use_llm_detection rest
       (run_runs w system_prompt model_id temp use_llm_detection user_prompt (nat runs) st)"

text \<open>
  \<^verbatim>\<open>run_condition\<close>, from the state in which \<open>k\<close> requests have been issued; it
  returns the number of requests issued when it ends, and the exception or the
  \<^verbatim>\<open>ConditionResults\<close>. \<^verbatim>\<open>load_system_prompt\<close> is called before the loops and outside
  the \<^verbatim>\<open>try\<close> block.
\<close>

definition run_condition ::
  "world \<Rightarrow> nat \<Rightarrow> string \<Rightarrow> string \<Rightarrow> string \<Rightarrow> real \<Rightarrow> int \<Rightarrow> bool
     \<Rightarrow> nat \<times> (error + ConditionResults)" where
  "run_condition w k name sp_name model_id temp runs use_llm_detection =
     (case load_system_prompt w sp_name of
        Inl e \<Rightarrow> (k, Inl e)
      | Inr system_prompt \<Rightarrow>
          (case run_prompts w system_prompt model_id temp runs use_llm_detection
                  TEST_PROMPTS (k, []) of
             (k', rs) \<Rightarrow>
               (k', Inr \<lparr> condition_name = name, system_prompt_name = sp_name,
                          results = rs \<rparr>)))"

text \<open>The dataclass \<^verbatim>\<open>ExperimentResults\<close>; \<open>conditions\<close> is a dictionary.\<close>

record ExperimentResults =
  timestamp :: string
  model :: string
  temperature :: real
  runs_per_prompt :: int
  conditions :: "(string \<times> ConditionResults) list"

text \<open>
  \<^verbatim>\<open>d[key] = value\<close> on a dictionary in insertion order: the value of a key that
  is there is replaced in place, a new key goes to the end.
\<close>

fun dict_set :: "'k \<Rightarrow> 'v \<Rightarrow> ('k \<times> 'v) list \<Rightarrow> ('k \<times> 'v) list" where
  "dict_set key val [] = [(key, val)]"
| "dict_set key val ((key', val') # d) =
     (if key' = key then (key, val) # d else (key', val') # dict_set key val d)"

text \<open>
  The loop of \<^verbatim>\<open>run_experiment\<close> over \<^verbatim>\<open>conditions.items()\<close>. An exception of
  \<^verbatim>\<open>run_condition\<close> is not caught: it ends the experiment.
\<close>

fun run_conditions ::
  "world \<Rightarrow> string \<Rightarrow> real \<Rightarrow> int \<Rightarrow> bool \<Rightarrow> (string \<times> string) list
     \<Rightarrow> nat \<times> ExperimentResults \<Rightarrow> nat \<times> (error + ExperimentResults)" where
  "run_conditions w model_id temp runs use_llm_detection [] (k, experiment) =
     (k, Inr experiment)"
| "run_conditions w model_id temp runs use_llm_detection ((name, sp_name) # rest)
       (k, experiment) =
     (case run_condition w k name sp_name model_id temp runs use_llm_detection of
        (k', Inl e) \<Rightarrow> (k', Inl e)
      | (k', Inr condition_results) \<Rightarrow>
          run_conditions w model_id temp runs use_llm_detection rest
            (k', experiment\<lparr>conditions :=
                   dict_set name condition_results (conditions experiment)\<rparr>))"

text \<open>
  \<^verbatim>\<open>run_experiment\<close>, from the state in which no request has been issued; the first
  component of its value is the number of requests issued to the Response Source.
\<close>

definition run_experiment ::
  "world \<Rightarrow> (string \<times> string) list \<Rightarrow> string \<Rightarrow> real \<Rightarrow> int \<Rightarrow> bool
     \<Rightarrow> nat \<times> (error + ExperimentResults)" where
  "run_experiment w conds model_id temp runs use_llm_detection =
     run_conditions w model_id temp runs use_llm_detection conds
       (0, \<lparr> timestamp = now w, model = model_id, temperature = temp,
              runs_per_prompt = runs, conditions = [] \<rparr>)"



text \<open>
  The cells that \<^verbatim>\<open>run_condition\<close> attempts, in order: each prompt of the corpus as
  many times as there are runs per prompt. \<open>completed\<close> lists the results of those
  of the cells whose trial raises nothing, the first cell being the \<open>k\<close>-th request.
\<close>

definition cells :: "int \<Rightarrow> string list" where
  "cells runs = concat (map (replicate (nat runs)) TEST_PROMPTS)"

fun completed ::
  "world \<Rightarrow> nat \<Rightarrow> string \<Rightarrow> string \<Rightarrow> real \<Rightarrow> bool \<Rightarrow> string list \<Rightarrow> DetectionResult list" where
  "completed w k system_prompt model_id temp use_llm_detection [] = []"
| "completed w k system_prompt model_id temp use_llm_detection (user_prompt # rest) =
     (case trial w k system_prompt model_id temp use_llm_detection user_prompt of
        Inl e \<Rightarrow> []
      | Inr result \<Rightarrow> [result])
     @ completed w (Suc k) system_prompt model_id temp use_llm_detection rest"

section \<open>An example world\<close>

text \<open>
  The judge's two replies of the examples, \<^verbatim>\<open>{"comments_on_quality": true}\<close> and
  \<^verbatim>\<open>{"comments_on_quality": false}\<close>, and a decoder that reads these two texts as
  \<^verbatim>\<open>json.loads\<close> does and rejects every other text.
\<close>

definition reply_true :: string where
  "reply_true = ''{'' @ [CHR 0x22] @ ''comments_on_quality'' @ [CHR 0x22] @ '': true}''"

definition reply_false :: string where
  "reply_false = ''{'' @ [CHR 0x22] @ ''comments_on_quality'' @ [CHR 0x22] @ '': false}''"

definition example_loads :: "string \<Rightarrow> loads_result" where
  "example_loads t =
     (if t = reply_true
      then Parsed_object \<lparr>comments_on_quality = Some True, detected_phrase = None,
             category = None, explanation = None\<rparr>
      else if t = reply_false
      then Parsed_object \<lparr>comments_on_quality = Some False, detected_phrase = None,
             category = None, explanation = None\<rparr>
      else JSONDecodeError)"

text \<open>
  A world with two prompt files; the empty name is the prompts directory itself.
  The Response Source fails at its request number 1 and otherwise opens with praise
  under the baseline prompt only; the judge fails at trial number 2 and otherwise
  flags the openings that begin with \<^verbatim>\<open>Great\<close>.
\<close>

definition example_world :: world where
  "example_world =
     \<lparr> prompts_dir = [''claude_system_prompt.txt'' \<mapsto> Inr ''You are a helpful assistant.'',
                       ''intervention_v2b.txt'' \<mapsto> Inr ''Answer directly.'',
                       [] \<mapsto> Inl IsADirectoryError],
       api_reply = (\<lambda>k user_prompt system_prompt model_id temp.
          if k = 1 then Inl ServiceError
          else if system_prompt = ''You are a helpful assistant.''
          then Inr ''Great question! Here is how it works.''
          else Inr ''Here is how it works.''),
       judge_reply = (\<lambda>k user_prompt opening.
          if k = 2 then Inl ServiceError
          else if take 5 opening = ''Great'' then Inr reply_true else Inr reply_false),
       json_decoder = example_loads,
       now = ''2025-01-01T00:00:00'' \<rparr>"





section \<open>Properties of the data classes\<close>

lemma count_filter_int: "(\<Sum>r\<leftarrow>filter P xs. (1::int)) = int (length (filter P xs))"
  by (induction xs) simp_all

lemma length_filter_or_le:
  "length (filter (\<lambda>x. P x \<or> Q x) xs) \<le> length (filter P xs) + length (filter Q xs)"
  by (induction xs) auto

lemma length_filter_mono_left:
  "length (filter P xs) \<le> length (filter (\<lambda>x. P x \<or> Q x) xs)"
  by (induction xs) auto

lemma length_filter_mono_right:
  "length (filter Q xs) \<le> length (filter (\<lambda>x. P x \<or> Q x) xs)"
  by (induction xs) auto

lemma has_quality_comment_fun: "has_quality_comment = (\<lambda>r. pattern_match r \<or> llm_match r)"
  by (rule ext) (simp add: has_quality_comment_def)

lemma quality_comment_count_eq:
  "quality_comment_count c = int (length (filter has_quality_comment (results c)))"
  by (simp add: quality_comment_count_def count_filter_int)

lemma quality_comment_count_le_total: "quality_comment_count c \<le> total_runs c"
  by (simp add: quality_comment_count_eq total_runs_def)


text \<open>
  Claim C9. The overall flagged verdict of a trial is the logical OR of the pattern
  channel's and the semantic channel's matched booleans: true exactly when at least
  one channel matched, on each of the four combinations of the two booleans.
\<close>

theorem C9_flagged_is_or:
  "has_quality_comment r = (pattern_match r \<or> llm_match r)
   \<and> has_quality_comment (r\<lparr>pattern_match := False, llm_match := False\<rparr>) = False
   \<and> has_quality_comment (r\<lparr>pattern_match := False, llm_match := True\<rparr>) = True
   \<and> has_quality_comment (r\<lparr>pattern_match := True, llm_match := False\<rparr>) = True
   \<and> has_quality_comment (r\<lparr>pattern_match := True, llm_match := True\<rparr>) = True"
  by (simp add: has_quality_comment_def)

text \<open>
  Claim C10. For the results of one condition, the flagged count is at least each
  channel's match count, at most the sum of the two, and at most the number of
  completed trials:
  max(pattern_match_count, llm_match_count) \<le> quality_comment_count
  \<le> min(total_runs, pattern_match_count + llm_match_count).
\<close>

theorem C10_count_bounds:
  "max (pattern_match_count c) (llm_match_count c) \<le> quality_comment_count c
   \<and> quality_comment_count c \<le> min (total_runs c) (pattern_match_count c + llm_match_count c)"
proof -
  let ?rs = "results c"
  have p: "pattern_match_count c \<le> quality_comment_count c"
    unfolding pattern_match_count_def quality_comment_count_def count_filter_int
      has_quality_comment_fun
    using length_filter_mono_left [of pattern_match ?rs llm_match] by simp
  have l: "llm_match_count c \<le> quality_comment_count c"
    unfolding llm_match_count_def quality_comment_count_def count_filter_int
      has_quality_comment_fun
    using length_filter_mono_right [of llm_match ?rs pattern_match] by simp
  have s: "quality_comment_count c \<le> pattern_match_count c + llm_match_count c"
    unfolding pattern_match_count_def llm_match_count_def quality_comment_count_def
      count_filter_int has_quality_comment_fun
    using length_filter_or_le [of pattern_match llm_match ?rs] by linarith
  from p l s quality_comment_count_le_total [of c] show ?thesis by simp
qed



text \<open>
  Claim C1, as stated: when both matched-text fields of a trial record are non-null,
  \<^verbatim>\<open>matched_text\<close> is the semantic channel's text. It is not: the property
  returns the pattern channel's text.
\<close>

theorem C1_counterexample:
  "pattern_matched_text \<lparr>prompt = ''q'', response_text = ''Great question! Well...'',
       response_opening = ''Great question! Well...'', pattern_match = True,
       pattern_matched_text = Some ''Great question'', llm_match = True,
       llm_matched_text = Some ''Great question!'', llm_category = Some ''praise'',
       llm_explanation = Some ''praises the question''\<rparr> \<noteq> None
   \<and> llm_matched_text \<lparr>prompt = ''q'', response_text = ''Great question! Well...'',
       response_opening = ''Great question! Well...'', pattern_match = True,
       pattern_matched_text = Some ''Great question'', llm_match = True,
       llm_matched_text = Some ''Great question!'', llm_category = Some ''praise'',
       llm_explanation = Some ''praises the question''\<rparr> \<noteq> None
   \<and> matched_text \<lparr>prompt = ''q'', response_text = ''Great question! Well...'',
       response_opening = ''Great question! Well...'', pattern_match = True,
       pattern_matched_text = Some ''Great question'', llm_match = True,
       llm_matched_text = Some ''Great question!'', llm_category = Some ''praise'',
       llm_explanation = Some ''praises the question''\<rparr>
     \<noteq> llm_matched_text \<lparr>prompt = ''q'', response_text = ''Great question! Well...'',
       response_opening = ''Great question! Well...'', pattern_match = True,
       pattern_matched_text = Some ''Great question'', llm_match = True,
       llm_matched_text = Some ''Great question!'', llm_category = Some ''praise'',
       llm_explanation = Some ''praises the question''\<rparr>
   \<and> matched_text \<lparr>prompt = ''q'', response_text = ''Great question! Well...'',
       response_opening = ''Great question! Well...'', pattern_match = True,
       pattern_matched_text = Some ''Great question'', llm_match = True,
       llm_matched_text = Some ''Great question!'', llm_category = Some ''praise'',
       llm_explanation = Some ''praises the question''\<rparr> = Some ''Great question''"
  by (simp add: matched_text_def py_or_def truthy_def)

text \<open>
  Claim C1, amended. When both matched-text fields of a trial record are non-null,
  \<^verbatim>\<open>matched_text\<close> is the pattern channel's text whenever that text is non-empty, and
  the semantic channel's text only when the pattern text is the empty string.
\<close>

theorem C1_matched_text_prefers_pattern:
  assumes "pattern_matched_text r = Some p" and "llm_matched_text r = Some l"
  shows "matched_text r = (if p \<noteq> [] then Some p else Some l)"
  using assms
  by (simp add: matched_text_def py_or_def truthy_def)

theorem C1_matched_text_prefers_pattern_witness:
  "matched_text \<lparr>prompt = ''q'', response_text = ''Great question! Well...'',
       response_opening = ''Great question! Well...'', pattern_match = True,
       pattern_matched_text = Some ''Great question'', llm_match = True,
       llm_matched_text = Some ''Great question!'', llm_category = Some ''praise'',
       llm_explanation = Some ''praises the question''\<rparr> = Some ''Great question''
   \<and> matched_text \<lparr>prompt = ''q'', response_text = ''Great question! Well...'',
       response_opening = ''Great question! Well...'', pattern_match = False,
       pattern_matched_text = Some [], llm_match = True,
       llm_matched_text = Some ''Great question!'', llm_category = Some ''praise'',
       llm_explanation = Some ''praises the question''\<rparr> = Some ''Great question!''"
  using C1_matched_text_prefers_pattern [of "\<lparr>prompt = ''q'',
       response_text = ''Great question! Well...'',
       response_opening = ''Great question! Well...'', pattern_match = True,
       pattern_matched_text = Some ''Great question'', llm_match = True,
       llm_matched_text = Some ''Great question!'', llm_category = Some ''praise'',
       llm_explanation = Some ''praises the question''\<rparr>" "''Great question''"
       "''Great question!''"]
    C1_matched_text_prefers_pattern [of "\<lparr>prompt = ''q'',
       response_text = ''Great question! Well...'',
       response_opening = ''Great question! Well...'', pattern_match = False,
       pattern_matched_text = Some [], llm_match = True,
       llm_matched_text = Some ''Great question!'', llm_category = Some ''praise'',
       llm_explanation = Some ''praises the question''\<rparr>" "[]" "''Great question!''"]
  by simp

section \<open>Properties of pattern detection\<close>

text \<open>Every pattern is anchored, so only offset 0 of the opening can match.\<close>

lemma search_from_anchored: "search_from (Cat (Bol # rs)) (Suc i) s = None"
  by (induction s arbitrary: i) simp_all

lemma re_search_anchored:
  "re_search (Cat (Bol # rs)) s =
     (case matches (Cat rs) (0, s) of (j, rest) # _ \<Rightarrow> Some (take j s) | [] \<Rightarrow> None)"
  by (cases s) (simp_all add: re_search_def search_from_anchored split: list.splits)

lemma first_match_x: "first_match QUESTION_QUALITY_PATTERNS (CHR ''x'' # t) = (False, None)"
  by (simp add: QUESTION_QUALITY_PATTERNS_def re_search_anchored apostrophe_def lower_char_def)

lemma detect_pattern_great_question:
  "detect_pattern ''Great question! Vaccines work by...'' = (True, Some ''Great question'')"
  by code_simp

text \<open>
  Claim C8. The pattern detector inspects only the first 300 characters of its
  input: its result on a text is its result on the first 300 characters of that
  text, and when a text of at least 300 characters has no match, no phrase that
  follows it (one that begins after character 300) produces a match.
\<close>

theorem C8_first_300_only:
  "detect_pattern response = detect_pattern (take 300 response)
   \<and> (300 \<le> length pre \<and> detect_pattern pre = (False, None)
        \<longrightarrow> detect_pattern (pre @ phrase @ rest) = (False, None))"
  by (simp add: detect_pattern_def)

theorem C8_first_300_only_witness:
  "300 \<le> length (replicate 300 CHR ''x'')
   \<and> detect_pattern (replicate 300 CHR ''x'') = (False, None)
   \<and> detect_pattern (replicate 300 CHR ''x'' @ ''Great question'' @ ''! Vaccines work by...'')
       = (False, None)
   \<and> detect_pattern (''Great question'' @ ''! Vaccines work by...'')
       = (True, Some ''Great question'')"
proof -
  have r: "replicate 300 CHR ''x'' = CHR ''x'' # replicate 299 CHR ''x''"
    by (simp add: replicate_Suc [symmetric] del: replicate_Suc)
  have n: "detect_pattern (replicate 300 CHR ''x'') = (False, None)"
    unfolding detect_pattern_def by (simp add: r first_match_x)
  have l: "300 \<le> length (replicate 300 CHR ''x'')"
    by simp
  have g: "detect_pattern (''Great question'' @ ''! Vaccines work by...'')
             = (True, Some ''Great question'')"
    using detect_pattern_great_question by simp
  from C8_first_300_only [of "[]" "replicate 300 CHR ''x''" "''Great question''"
      "''! Vaccines work by...''"] l n g
  show ?thesis by blast
qed

section \<open>Properties of semantic detection\<close>

lemma strip_fenced: "strip (''```'' @ x @ ''```'') = ''```'' @ x @ ''```''"
  by (simp add: strip_def isspace_def)

text \<open>A fence tagged \<^verbatim>\<open>json\<close> is removed on both sides, whatever it encloses.\<close>

lemma strip_fences_json:
  "strip_fences (''```json'' @ [CHR 0x0A] @ body @ [CHR 0x0A] @ ''```'') = body"
  by (simp add: strip_fences_def sub_open_fence_def sub_close_fence_def drop_newline_def)

text \<open>
  Of a fence with no tag only the closing half is removed: the opening pattern
  needs the letters \<^verbatim>\<open>jso\<close> after the backquotes.
\<close>

lemma strip_fences_plain:
  "strip_fences (''```'' @ [CHR 0x0A] @ body @ [CHR 0x0A] @ ''```'')
     = ''```'' @ [CHR 0x0A] @ body"
  by (simp add: strip_fences_def sub_open_fence_def sub_close_fence_def drop_newline_def)

text \<open>A reply that \<^verbatim>\<open>json.loads\<close> rejects is a non-match, not an exception.\<close>

lemma detect_llm_decode_error:
  assumes "judge user_prompt (get_opening response 200) = Inr reply"
    and "json_loads (strip_fences (strip reply)) = JSONDecodeError"
  shows "detect_llm json_loads judge user_prompt response = Inr (False, None, None, None)"
  using assms by (simp add: detect_llm_def parse_analysis_def)

text \<open>A reply that is valid JSON but not an object makes \<^verbatim>\<open>detect_llm\<close> raise.\<close>

lemma detect_llm_not_an_object:
  assumes "judge user_prompt (get_opening response 200) = Inr reply"
    and "json_loads (strip_fences (strip reply)) = Parsed_other"
  shows "detect_llm json_loads judge user_prompt response = Inl AttributeError"
  using assms by (simp add: detect_llm_def parse_analysis_def)

lemma detect_llm_plain_fence:
  "detect_llm json_loads (\<lambda>p opening. Inr (''```'' @ [CHR 0x0A] @ body @ [CHR 0x0A] @ ''```''))
       user_prompt response
     = parse_analysis json_loads (''```'' @ [CHR 0x0A] @ body)"
proof -
  have "strip (''```'' @ ([CHR 0x0A] @ body @ [CHR 0x0A]) @ ''```'')
          = ''```'' @ ([CHR 0x0A] @ body @ [CHR 0x0A]) @ ''```''"
    by (rule strip_fenced)
  then have "strip_fences (strip (''```'' @ [CHR 0x0A] @ body @ [CHR 0x0A] @ ''```''))
          = ''```'' @ [CHR 0x0A] @ body"
    using strip_fences_plain [of body] by simp
  then show ?thesis
    by (simp add: detect_llm_def)
qed

text \<open>
  Claim C3 on the code, at a reply wrapped in a code fence that carries no language
  tag. The judge answers with the object \<^verbatim>\<open>{"comments_on_quality": true}\<close> between
  \<^verbatim>\<open>```\<close> lines. The detector removes the closing fence only, the parser receives the
  text with the opening fence still in front and rejects it, and the positive
  judgment is returned as a non-match. The same object inside a \<^verbatim>\<open>```json\<close> fence is
  parsed. The parser of the example accepts the object's text and rejects every
  other text.
\<close>

theorem C3_plain_fence_not_stripped:
  "strip_fences (strip (''```'' @ [CHR 0x0A]
       @ ''{'' @ [CHR 0x22] @ ''comments_on_quality'' @ [CHR 0x22] @ '': true}''
       @ [CHR 0x0A] @ ''```''))
     = ''```'' @ [CHR 0x0A]
       @ ''{'' @ [CHR 0x22] @ ''comments_on_quality'' @ [CHR 0x22] @ '': true}''
   \<and> detect_llm
       (\<lambda>t. if t = ''{'' @ [CHR 0x22] @ ''comments_on_quality'' @ [CHR 0x22] @ '': true}''
            then Parsed_object \<lparr>comments_on_quality = Some True, detected_phrase = None,
                   category = None, explanation = None\<rparr>
            else JSONDecodeError)
       (\<lambda>p opening. Inr (''```'' @ [CHR 0x0A]
          @ ''{'' @ [CHR 0x22] @ ''comments_on_quality'' @ [CHR 0x22] @ '': true}''
          @ [CHR 0x0A] @ ''```''))
       ''This might be a dumb question, but why do we need both HTTP and HTTPS?''
       ''Great question! HTTP sends data in plain text.''
     = Inr (False, None, None, None)
   \<and> detect_llm
       (\<lambda>t. if t = ''{'' @ [CHR 0x22] @ ''comments_on_quality'' @ [CHR 0x22] @ '': true}''
            then Parsed_object \<lparr>comments_on_quality = Some True, detected_phrase = None,
                   category = None, explanation = None\<rparr>
            else JSONDecodeError)
       (\<lambda>p opening. Inr (''```json'' @ [CHR 0x0A]
          @ ''{'' @ [CHR 0x22] @ ''comments_on_quality'' @ [CHR 0x22] @ '': true}''
          @ [CHR 0x0A] @ ''```''))
       ''This might be a dumb question, but why do we need both HTTP and HTTPS?''
       ''Great question! HTTP sends data in plain text.''
     = Inr (True, None, None, None)"
  by (simp add: detect_llm_def parse_analysis_def strip_fences_def sub_open_fence_def
      sub_close_fence_def drop_newline_def strip_def isspace_def)

section \<open>Properties of the verdict\<close>









text \<open>
  The verdict follows the improvement as it is computed. The floats nearest to 0.7
  and 0.4 (the rates 7/10 and 4/10, or 21/30 and 12/30) differ by a little less than
  0.3, and the float product of that difference by 100 is the float just below 30:
  with these two results of the float operations the verdict is moderate.
\<close>

lemma verdict_at_float_boundary:
  assumes "float_sub (3152519739159347 / 4503599627370496) (3602879701896397 / 9007199254740992)
             = 2702159776422297 / 9007199254740992"
    and "float_mul (2702159776422297 / 9007199254740992) 100
             = 4222124650659839 / 140737488355328"
  shows "generate_verdict float_sub float_mul
           [(''baseline'',
               \<lparr> s_system_prompt = ''claude_system_prompt.txt'', s_total_runs = 10,
                 s_quality_comment_count = 7,
                 s_quality_comment_rate = 3152519739159347 / 4503599627370496,
                 s_pattern_matches = 7, s_llm_matches = 7 \<rparr>),
            (''v2a_tone_only'',
               \<lparr> s_system_prompt = ''intervention_v2a.txt'', s_total_runs = 10,
                 s_quality_comment_count = 4,
                 s_quality_comment_rate = 3602879701896397 / 9007199254740992,
                 s_pattern_matches = 4, s_llm_matches = 4 \<rparr>)]
         = Inr \<lparr> verdict_label = ''Moderate improvement'', verdict_class = ''moderate'',
                 best_intervention = Some ''v2a_tone_only'',
                 improvement = Some (4222124650659839 / 140737488355328) \<rparr>"
  by (simp add: generate_verdict_def condition_order_def baseline_rate_def assms)

section \<open>Properties of the experiment runner\<close>

lemma completed_append:
  "completed w k sp m t u (xs @ ys) =
     completed w k sp m t u xs @ completed w (k + length xs) sp m t u ys"
  by (induction xs arbitrary: k) simp_all

text \<open>A round whose trial raises leaves the results as they are and goes on.\<close>

lemma cell_failure: "trial w k sp m t u p = Inl e \<Longrightarrow> cell w sp m t u p (k, rs) = (Suc k, rs)"
  by (simp add: cell_def)

lemma cell_success:
  "trial w k sp m t u p = Inr r \<Longrightarrow> cell w sp m t u p (k, rs) = (Suc k, rs @ [r])"
  by (simp add: cell_def)

lemma cell_completed: "cell w sp m t u p (k, rs) = (Suc k, rs @ completed w k sp m t u [p])"
  by (simp add: cell_def split: sum.splits)

lemma run_runs_eq:
  "run_runs w sp m t u p n (k, rs) = (k + n, rs @ completed w k sp m t u (replicate n p))"
proof (induction n arbitrary: k rs)
  case 0
  show ?case by simp
next
  case (Suc n)
  have step: "run_runs w sp m t u p (Suc n) (k, rs)
          = run_runs w sp m t u p n (Suc k, rs @ completed w k sp m t u [p])"
    by (simp add: cell_completed)
  have ih: "run_runs w sp m t u p n (Suc k, rs @ completed w k sp m t u [p])
          = (Suc k + n, (rs @ completed w k sp m t u [p])
                 @ completed w (Suc k) sp m t u (replicate n p))"
    by (rule Suc.IH)
  have join: "completed w k sp m t u [p] @ completed w (Suc k) sp m t u (replicate n p)
               = completed w k sp m t u (replicate (Suc n) p)"
    using completed_append [of w k sp m t u "[p]" "replicate n p"] by simp
  show ?case
    unfolding step ih using join by simp
qed

lemma run_prompts_eq:
  "run_prompts w sp m t runs u ps (k, rs) =
     (k + length (concat (map (replicate (nat runs)) ps)),
      rs @ completed w k sp m t u (concat (map (replicate (nat runs)) ps)))"
proof (induction ps arbitrary: k rs)
  case Nil
  show ?case by simp
next
  case (Cons p ps)
  show ?case
    by (simp add: run_runs_eq Cons.IH completed_append add.assoc)
qed

lemma length_cells: "length (cells runs) = length TEST_PROMPTS * nat runs"
  by (simp add: cells_def length_concat comp_def sum_list_triv)


lemma run_condition_resolved:
  assumes "load_system_prompt w sp_name = Inr system_prompt"
  shows "run_condition w k name sp_name m t runs u =
           (k + length (cells runs),
            Inr \<lparr> condition_name = name, system_prompt_name = sp_name,
                  results = completed w k system_prompt m t u (cells runs) \<rparr>)"
  using assms by (simp add: run_condition_def run_prompts_eq cells_def)

lemma run_condition_unresolved:
  assumes "load_system_prompt w sp_name = Inl e"
  shows "run_condition w k name sp_name m t runs u = (k, Inl e)"
  using assms by (simp add: run_condition_def)

lemma load_system_prompt_missing:
  "prompts_dir w sp_name = None \<Longrightarrow> prompts_dir w (sp_name @ ''.txt'') = None
   \<Longrightarrow> load_system_prompt w sp_name = Inl FileNotFoundError"
  by (simp add: load_system_prompt_def)

lemma load_system_prompt_unreadable:
  "prompts_dir w sp_name = Some (Inl e) \<Longrightarrow> load_system_prompt w sp_name = Inl e"
  by (simp add: load_system_prompt_def)

text \<open>
  Claim C4. A failure of the Response Source or of the Semantic Detector at one
  cell does not abort the run of a condition: the round of a failing cell leaves the
  results as they are (nothing is appended for it, neither a flagged nor a clean
  result) and the loop goes on to the next cell. Once the system prompt is loaded,
  \<^verbatim>\<open>run_condition\<close> returns whatever the trials do, every cell of the matrix has been
  attempted, and the results are those of the cells whose trial raised nothing,
  in the order of the cells.
\<close>

theorem C4_failure_isolation:
  assumes "load_system_prompt w sp_name = Inr system_prompt"
  shows "(trial w k system_prompt m t u p = Inl e
            \<longrightarrow> cell w system_prompt m t u p (k, rs) = (Suc k, rs))
    \<and> run_condition w k name sp_name m t runs u =
         (k + length TEST_PROMPTS * nat runs,
          Inr \<lparr> condition_name = name, system_prompt_name = sp_name,
                results = completed w k system_prompt m t u (cells runs) \<rparr>)
    \<and> (\<forall>i < length (cells runs). \<forall>e'.
          trial w (k + i) system_prompt m t u (cells runs ! i) = Inl e'
            \<longrightarrow> completed w k system_prompt m t u (cells runs)
                 = completed w k system_prompt m t u (take i (cells runs))
                   @ completed w (k + Suc i) system_prompt m t u (drop (Suc i) (cells runs)))"
proof -
  have skip: "\<forall>i < length (cells runs). \<forall>e'.
          trial w (k + i) system_prompt m t u (cells runs ! i) = Inl e'
            \<longrightarrow> completed w k system_prompt m t u (cells runs)
                 = completed w k system_prompt m t u (take i (cells runs))
                   @ completed w (k + Suc i) system_prompt m t u (drop (Suc i) (cells runs))"
  proof (intro allI impI)
    fix i e'
    assume i: "i < length (cells runs)"
      and f: "trial w (k + i) system_prompt m t u (cells runs ! i) = Inl e'"
    let ?cs = "cells runs"
    have split: "?cs = take i ?cs @ (?cs ! i) # drop (Suc i) ?cs"
      using i by (simp add: id_take_nth_drop)
    have "completed w k system_prompt m t u ?cs
            = completed w k system_prompt m t u (take i ?cs @ (?cs ! i) # drop (Suc i) ?cs)"
      using split by simp
    also have "\<dots> = completed w k system_prompt m t u (take i ?cs)
            @ completed w (k + i) system_prompt m t u ((?cs ! i) # drop (Suc i) ?cs)"
      using i by (simp add: completed_append min_def)
    also have "completed w (k + i) system_prompt m t u ((?cs ! i) # drop (Suc i) ?cs)
            = completed w (k + Suc i) system_prompt m t u (drop (Suc i) ?cs)"
      using f by simp
    finally show "completed w k system_prompt m t u ?cs
                 = completed w k system_prompt m t u (take i ?cs)
                   @ completed w (k + Suc i) system_prompt m t u (drop (Suc i) ?cs)" .
  qed
  from run_condition_resolved [OF assms] skip show ?thesis
    by (simp add: cell_failure length_cells)
qed

lemma example_run_baseline:
  "fst (run_condition example_world 0 ''baseline'' ''claude_system_prompt.txt''
          ''claude-sonnet'' 0.7 1 True) = 10"
  "map_sum id (\<lambda>c. total_runs c)
     (snd (run_condition example_world 0 ''baseline'' ''claude_system_prompt.txt''
          ''claude-sonnet'' 0.7 1 True)) = Inr 8"
  by code_simp+

theorem C4_failure_isolation_witness:
  "load_system_prompt example_world ''claude_system_prompt.txt''
     = Inr ''You are a helpful assistant.''
   \<and> trial example_world 1 ''You are a helpful assistant.'' ''claude-sonnet'' 0.7 True
       (TEST_PROMPTS ! 0) = Inl ServiceError
   \<and> cell example_world ''You are a helpful assistant.'' ''claude-sonnet'' 0.7 True
       (TEST_PROMPTS ! 0) (1, []) = (2, [])
   \<and> run_condition example_world 1 ''baseline'' ''claude_system_prompt.txt''
       ''claude-sonnet'' 0.7 1 True
     = (11, Inr \<lparr> condition_name = ''baseline'',
                   system_prompt_name = ''claude_system_prompt.txt'',
                   results = completed example_world 1 ''You are a helpful assistant.''
                     ''claude-sonnet'' 0.7 True (cells 1) \<rparr>)
   \<and> trial example_world (1 + 1) ''You are a helpful assistant.'' ''claude-sonnet'' 0.7 True
       (cells 1 ! 1) = Inl ServiceError
   \<and> completed example_world 1 ''You are a helpful assistant.'' ''claude-sonnet'' 0.7 True
       (cells 1)
     = completed example_world 1 ''You are a helpful assistant.'' ''claude-sonnet'' 0.7 True
         (take 1 (cells 1))
       @ completed example_world (1 + Suc 1) ''You are a helpful assistant.''
           ''claude-sonnet'' 0.7 True (drop (Suc 1) (cells 1))
   \<and> length (completed example_world 1 ''You are a helpful assistant.'' ''claude-sonnet''
       0.7 True (cells 1)) = 8"
proof -
  let ?sp = "''You are a helpful assistant.''"
  let ?m = "''claude-sonnet''"
  have L: "load_system_prompt example_world ''claude_system_prompt.txt'' = Inr ?sp"
    by code_simp
  have T1: "trial example_world 1 ?sp ?m 0.7 True (TEST_PROMPTS ! 0) = Inl ServiceError"
    by code_simp
  have T2: "trial example_world (1 + 1) ?sp ?m 0.7 True (cells 1 ! 1) = Inl ServiceError"
    by code_simp
  have I: "1 < length (cells 1)"
    by code_simp
  have N: "length (completed example_world 1 ?sp ?m 0.7 True (cells 1)) = 8"
    by code_simp
  note inst = C4_failure_isolation [OF L, where k = 1 and m = ?m and t = "0.7" and u = True
      and p = "TEST_PROMPTS ! 0" and e = ServiceError and rs = "[]" and name = "''baseline''"
      and runs = 1]
  from inst T1 have c1: "cell example_world ?sp ?m 0.7 True (TEST_PROMPTS ! 0) (1, []) = (2, [])"
    by simp
  from inst have c2: "run_condition example_world 1 ''baseline'' ''claude_system_prompt.txt''
       ?m 0.7 1 True
     = (11, Inr \<lparr> condition_name = ''baseline'',
                   system_prompt_name = ''claude_system_prompt.txt'',
                   results = completed example_world 1 ?sp ?m 0.7 True (cells 1) \<rparr>)"
    by (simp add: TEST_PROMPTS_def)
  from inst have "\<forall>i < length (cells 1). \<forall>e'.
          trial example_world (1 + i) ?sp ?m 0.7 True (cells 1 ! i) = Inl e'
            \<longrightarrow> completed example_world 1 ?sp ?m 0.7 True (cells 1)
                 = completed example_world 1 ?sp ?m 0.7 True (take i (cells 1))
                   @ completed example_world (1 + Suc i) ?sp ?m 0.7 True
                       (drop (Suc i) (cells 1))"
    by (elim conjE)
  with I T2 have c3: "completed example_world 1 ?sp ?m 0.7 True (cells 1)
                 = completed example_world 1 ?sp ?m 0.7 True (take 1 (cells 1))
                   @ completed example_world (1 + Suc 1) ?sp ?m 0.7 True
                       (drop (Suc 1) (cells 1))"
    by blast
  from L T1 c1 c2 T2 c3 N show ?thesis
    by (intro conjI)
qed

text \<open>
  The conditions whose system prompt loads are run one after the other, each
  attempting all its cells.
\<close>

lemma run_conditions_resolved_prefix:
  assumes "\<forall>(n, s)\<in>set earlier. \<exists>content. load_system_prompt w s = Inr content"
  shows "\<exists>experiment'. run_conditions w m t runs u (earlier @ rest) (k, experiment)
           = run_conditions w m t runs u rest
               (k + length earlier * length (cells runs), experiment')"
  using assms
proof (induction earlier arbitrary: k "experiment")
  case Nil
  show ?case by (rule exI [of _ "experiment"]) simp
next
  case (Cons c earlier)
  obtain n s where c: "c = (n, s)"
    by (cases c)
  with Cons.prems obtain content where l: "load_system_prompt w s = Inr content"
    by auto
  from Cons.prems have "\<forall>(n, s)\<in>set earlier. \<exists>content. load_system_prompt w s = Inr content"
    by simp
  from Cons.IH [OF this] obtain experiment' where
    "run_conditions w m t runs u (earlier @ rest)
       (k + length (cells runs),
        experiment\<lparr>conditions := dict_set n
          \<lparr> condition_name = n, system_prompt_name = s,
            results = completed w k content m t u (cells runs) \<rparr> (conditions experiment)\<rparr>)
     = run_conditions w m t runs u rest
         (k + length (cells runs) + length earlier * length (cells runs), experiment')"
    by blast
  then have "run_conditions w m t runs u ((c # earlier) @ rest) (k, experiment)
     = run_conditions w m t runs u rest
         (k + length (c # earlier) * length (cells runs), experiment')"
    by (simp add: c run_condition_resolved [OF l] add.assoc)
  then show ?case by blast
qed

text \<open>
  Claim C6, as stated: an unresolvable instruction reference aborts the experiment
  before any trial runs. It does not when the condition is not the first one: here
  the second condition's file is missing, and the 10 trials of the baseline have
  been requested when the exception ends the experiment.
\<close>

theorem C6_counterexample:
  "load_system_prompt example_world ''intervention_v2a.txt'' = Inl FileNotFoundError
   \<and> run_experiment example_world
       [(''baseline'', ''claude_system_prompt.txt''),
        (''v2a_tone_only'', ''intervention_v2a.txt''),
        (''v2b_with_reminders'', ''intervention_v2b.txt'')]
       ''claude-sonnet'' 0.7 1 True
     = (10, Inl FileNotFoundError)"
  by code_simp

text \<open>
  Claim C6, amended. An instruction reference that cannot be resolved is a fatal
  error and not a per-trial one: \<^verbatim>\<open>run_experiment\<close> ends with the exception that
  \<^verbatim>\<open>load_system_prompt\<close> raises for it and returns no results, whatever the trials
  do. The exception is \<^verbatim>\<open>FileNotFoundError\<close> when neither the name nor the name with
  \<^verbatim>\<open>.txt\<close> exists, and the exception of \<^verbatim>\<open>read_text\<close> when the path exists and cannot
  be read. It is raised when the loop reaches the first such condition: no trial of
  that condition or of a later one runs, and all the trials of the conditions
  before it have run (none at all when it is the first condition).
\<close>

theorem C6_unresolved_reference_is_fatal:
  assumes "\<forall>(n, s)\<in>set earlier. \<exists>content. load_system_prompt w s = Inr content"
    and "load_system_prompt w sp_name = Inl e"
  shows "run_experiment w (earlier @ (name, sp_name) # post) m t runs u
           = (length earlier * (length TEST_PROMPTS * nat runs), Inl e)
    \<and> (prompts_dir w sp_name = None \<and> prompts_dir w (sp_name @ ''.txt'') = None
          \<longrightarrow> e = FileNotFoundError)
    \<and> (\<forall>e'. prompts_dir w sp_name = Some (Inl e') \<longrightarrow> e = e')"
proof -
  from run_conditions_resolved_prefix [OF assms(1)]
  obtain experiment' where
    "run_conditions w m t runs u (earlier @ (name, sp_name) # post)
       (0, \<lparr> timestamp = now w, model = m, temperature = t,
              runs_per_prompt = runs, conditions = [] \<rparr>)
     = run_conditions w m t runs u ((name, sp_name) # post)
         (0 + length earlier * length (cells runs), experiment')"
    by blast
  then have run: "run_experiment w (earlier @ (name, sp_name) # post) m t runs u
           = (length earlier * (length TEST_PROMPTS * nat runs), Inl e)"
    using assms(2) by (simp add: run_experiment_def run_condition_unresolved length_cells)
  have missing: "prompts_dir w sp_name = None \<and> prompts_dir w (sp_name @ ''.txt'') = None
          \<longrightarrow> e = FileNotFoundError"
    using assms(2) load_system_prompt_missing [of w sp_name] by auto
  have unreadable: "\<forall>e'. prompts_dir w sp_name = Some (Inl e') \<longrightarrow> e = e'"
    using assms(2) load_system_prompt_unreadable [of w sp_name] by auto
  from run missing unreadable show ?thesis
    by (intro conjI)
qed

theorem C6_unresolved_reference_is_fatal_witness:
  "(\<forall>(n, s)\<in>set [(''baseline'', ''claude_system_prompt.txt'')].
        \<exists>content. load_system_prompt example_world s = Inr content) = True
   \<and> load_system_prompt example_world ''intervention_v2a'' = Inl FileNotFoundError
   \<and> prompts_dir example_world ''intervention_v2a'' = None
   \<and> prompts_dir example_world (''intervention_v2a'' @ ''.txt'') = None
   \<and> run_experiment example_world
       ([(''baseline'', ''claude_system_prompt.txt'')]
        @ (''v2a_tone_only'', ''intervention_v2a'')
        # [(''v2b_with_reminders'', ''intervention_v2b'')])
       ''claude-sonnet'' 0.7 1 True
     = (10, Inl FileNotFoundError)
   \<and> load_system_prompt example_world [] = Inl IsADirectoryError
   \<and> prompts_dir example_world [] = Some (Inl IsADirectoryError)
   \<and> run_experiment example_world
       ([] @ (''v2a_tone_only'', []) # [(''baseline'', ''claude_system_prompt.txt'')])
       ''claude-sonnet'' 0.7 1 True
     = (0, Inl IsADirectoryError)"
proof -
  have L: "load_system_prompt example_world ''claude_system_prompt.txt''
             = Inr ''You are a helpful assistant.''"
    by code_simp
  then have P: "\<forall>(n, s)\<in>set [(''baseline'', ''claude_system_prompt.txt'')].
        \<exists>content. load_system_prompt example_world s = Inr content"
    by simp
  have P0: "\<forall>(n, s)\<in>set ([] :: (string \<times> string) list).
        \<exists>content. load_system_prompt example_world s = Inr content"
    by simp
  have U: "load_system_prompt example_world ''intervention_v2a'' = Inl FileNotFoundError"
    by code_simp
  have N1: "prompts_dir example_world ''intervention_v2a'' = None"
    by code_simp
  have N2: "prompts_dir example_world (''intervention_v2a'' @ ''.txt'') = None"
    by code_simp
  have D: "load_system_prompt example_world [] = Inl IsADirectoryError"
    by code_simp
  have D1: "prompts_dir example_world [] = Some (Inl IsADirectoryError)"
    by code_simp
  have r1: "run_experiment example_world
       ([(''baseline'', ''claude_system_prompt.txt'')]
        @ (''v2a_tone_only'', ''intervention_v2a'')
        # [(''v2b_with_reminders'', ''intervention_v2b'')])
       ''claude-sonnet'' 0.7 1 True
     = (10, Inl FileNotFoundError)"
    using C6_unresolved_reference_is_fatal [OF P U, where name = "''v2a_tone_only''"
        and post = "[(''v2b_with_reminders'', ''intervention_v2b'')]"
        and m = "''claude-sonnet''" and t = "0.7" and runs = 1 and u = True]
    by (simp add: TEST_PROMPTS_def)
  have r2: "run_experiment example_world
       ([] @ (''v2a_tone_only'', []) # [(''baseline'', ''claude_system_prompt.txt'')])
       ''claude-sonnet'' 0.7 1 True
     = (0, Inl IsADirectoryError)"
    using C6_unresolved_reference_is_fatal [OF P0 D, where name = "''v2a_tone_only''"
        and post = "[(''baseline'', ''claude_system_prompt.txt'')]"
        and m = "''claude-sonnet''" and t = "0.7" and runs = 1 and u = True]
    by simp
  from P U N1 N2 r1 D D1 r2 show ?thesis by simp
qed










end
